theory Spec2Isabelle
  imports Main "HOL-Library.Sublist" "HOL-Library.Word"
begin

section \<open>Values of the JavaScript runtime\<close>

text \<open>
  The page works on what \<^verbatim>\<open>response.json()\<close> returns: TypeScript's interfaces are
  erased at run time. A parsed JSON value is a tree; an object is the list of its own
  properties in insertion order (keys distinct, as \<^verbatim>\<open>JSON.parse\<close> leaves them).
  Numbers are IEEE doubles in the source; their type \<open>'n\<close> stays a parameter.
\<close>

datatype 'n json =
    JNull
  | JBool bool
  | JNum 'n
  | JStr string
  | JArr "'n json list"
  | JObj "(string \<times> 'n json) list"

text \<open>
  What the program needs from the engine and cannot be written down here: when a number
  is truthy, how \<^verbatim>\<open>ToString\<close> prints a number, and the messages of two
  \<^verbatim>\<open>TypeError\<close>s: the one raised by reading a property of \<^verbatim>\<open>null\<close>, and the
  one raised when an object cannot be converted to a primitive value.
\<close>

record 'n engine =
  num_truthy :: "'n \<Rightarrow> bool"
  num_to_string :: "'n \<Rightarrow> string"
  null_read_message :: string
  to_primitive_message :: string

text \<open>\<^verbatim>\<open>ToBoolean\<close>: what \<^verbatim>\<open>a || b\<close> and \<^verbatim>\<open>a && b\<close> test.\<close>

fun truthy :: "'n engine \<Rightarrow> 'n json \<Rightarrow> bool" where
  "truthy E JNull = False"
| "truthy E (JBool b) = b"
| "truthy E (JNum n) = num_truthy E n"
| "truthy E (JStr s) = (s \<noteq> [])"
| "truthy E (JArr xs) = True"
| "truthy E (JObj kvs) = True"

fun join_comma :: "string list \<Rightarrow> string" where
  "join_comma [] = []"
| "join_comma [x] = x"
| "join_comma (x # y # r) = x @ '','' @ join_comma (y # r)"

text \<open>The results of a list of conversions, or the first error among them.\<close>

fun collect :: "('e + 'a) list \<Rightarrow> 'e + 'a list" where
  "collect [] = Inr []"
| "collect (Inl e # rs) = Inl e"
| "collect (Inr a # rs) = (case collect rs of Inl e \<Rightarrow> Inl e | Inr as \<Rightarrow> Inr (a # as))"

text \<open>
  \<^verbatim>\<open>ToString\<close>, as \<^verbatim>\<open>new Error(v)\<close> applies it to its argument; \<open>Inl\<close> is the
  message of the \<^verbatim>\<open>TypeError\<close> it throws. An array prints its elements from left to
  right, joined by commas, a \<^verbatim>\<open>null\<close> element as the empty string. A parsed object
  holds no function: when it has an own property \<^verbatim>\<open>toString\<close>, that property hides
  \<^verbatim>\<open>Object.prototype.toString\<close>, \<^verbatim>\<open>valueOf\<close> gives no primitive either, and the
  conversion throws; otherwise the object prints as \<^verbatim>\<open>[object Object]\<close>.
\<close>

fun ToString :: "'n engine \<Rightarrow> 'n json \<Rightarrow> string + string" where
  "ToString E JNull = Inr ''null''"
| "ToString E (JBool b) = Inr (if b then ''true'' else ''false'')"
| "ToString E (JNum n) = Inr (num_to_string E n)"
| "ToString E (JStr s) = Inr s"
| "ToString E (JArr xs) =
     (case collect (map (\<lambda>x. if x = JNull then Inr [] else ToString E x) xs) of
        Inl m \<Rightarrow> Inl m
      | Inr parts \<Rightarrow> Inr (join_comma parts))"
| "ToString E (JObj kvs) =
     (case map_of kvs ''toString'' of
        None \<Rightarrow> Inr ''[object Object]''
      | Some f \<Rightarrow> Inl (to_primitive_message E))"

text \<open>
  Property read \<^verbatim>\<open>v.k\<close> for a key that no prototype defines: \<open>Inl\<close> is the
  \<^verbatim>\<open>TypeError\<close> on \<^verbatim>\<open>null\<close>, \<open>Inr None\<close> is \<^verbatim>\<open>undefined\<close>.
\<close>

fun get_prop :: "'n engine \<Rightarrow> 'n json \<Rightarrow> string \<Rightarrow> string + 'n json option" where
  "get_prop E JNull k = Inl (null_read_message E)"
| "get_prop E (JObj kvs) k = Inr (map_of kvs k)"
| "get_prop E v k = Inr None"

section \<open>Strings\<close>

text \<open>
  Strings are byte strings here. \<^verbatim>\<open>toLowerCase\<close> acts on the ASCII letters and
  leaves every other byte alone; no character outside ASCII lowers to a letter of the five
  chart tags.
\<close>

definition upper_letters :: string where
  "upper_letters = ''ABCDEFGHIJKLMNOPQRSTUVWXYZ''"

definition lower_letters :: string where
  "lower_letters = ''abcdefghijklmnopqrstuvwxyz''"

definition lower_char :: "char \<Rightarrow> char" where
  "lower_char c =
     (case map_of (zip upper_letters lower_letters) c of Some d \<Rightarrow> d | None \<Rightarrow> c)"

definition toLowerCase :: "string \<Rightarrow> string" where
  "toLowerCase s = map lower_char s"

section \<open>The suggestion renderer (ChartDisplay)\<close>

record 'n ChartSuggestion =
  type :: string
  title :: string
  x_axis :: "string option"
  y_axis :: "string option"
  explanation :: string
  data :: "'n json list"

definition COLORS :: "string list" where
  "COLORS = [''#0088FE'', ''#00C49F'', ''#FFBB28'', ''#FF8042'', ''#8884D8'', ''#82CA9D'']"

text \<open>\<^verbatim>\<open>COLORS[k]\<close>: an index past the end reads \<^verbatim>\<open>undefined\<close>, here \<open>None\<close>.\<close>

definition color_at :: "nat \<Rightarrow> string option" where
  "color_at k = (if k < length COLORS then Some (COLORS ! k) else None)"

text \<open>\<^verbatim>\<open>COLORS[index % COLORS.length]\<close>\<close>

definition palette :: "nat \<Rightarrow> string option" where
  "palette index = color_at (index mod length COLORS)"

text \<open>
  The element tree that \<^verbatim>\<open>renderChart\<close> returns, reduced to the props that carry data:
  the rows, the \<^verbatim>\<open>dataKey\<close> of each axis and series, and the colours. The constant
  presentational props (grid, tooltip, legend, tick sizes, radii) are left out.
\<close>

datatype 'n chart =
    BarChart (rows: "'n json list") (xKey: "string option")
      (seriesKey: "string option") (fill: "string option")
  | LineChart (rows: "'n json list") (xKey: "string option")
      (seriesKey: "string option") (stroke: "string option")
  | PieChart (rows: "'n json list") (valueKey: string) (nameKey: "string option")
      (pieFill: string) (cells: "string option list")
  | ScatterChart (rows: "'n json list") (xKey: "string option") (yKey: "string option")
      (seriesKey: "string option") (fill: "string option")
  | AreaChart (rows: "'n json list") (xKey: "string option")
      (seriesKey: "string option") (stroke: "string option") (fill: "string option")
  | NotSupported (message: string)

text \<open>
  The pie's label callback:
  \<^verbatim>\<open>({ name, percent }) => `${name} ${(percent * 100).toFixed(0)}%`\<close>.
  The rounded percentage is floating point and is taken as text.
\<close>

definition pie_label :: "string \<Rightarrow> string \<Rightarrow> string" where
  "pie_label name pct = name @ '' '' @ pct @ ''%''"

text \<open>
  The \<^verbatim>\<open>Pie\<close> element is given no \<^verbatim>\<open>nameKey\<close>; the charting library then reads
  the \<^verbatim>\<open>name\<close> passed to the label callback from the row's field \<^verbatim>\<open>name\<close>.
\<close>

definition label_field :: "string option \<Rightarrow> string" where
  "label_field k = (case k of None \<Rightarrow> ''name'' | Some f \<Rightarrow> f)"

text \<open>The children of the fallback paragraph, concatenated.\<close>

definition not_supported_text :: "string \<Rightarrow> string" where
  "not_supported_text t = ''Chart type '' @ [CHR 0x27] @ t @ [CHR 0x27] @ '' not supported''"

text \<open>
  \<^verbatim>\<open>suggestion.data.map((entry, index) => <Cell fill={COLORS[index % COLORS.length]} />)\<close>:
  the callback's \<^verbatim>\<open>index\<close> shadows the component's.
\<close>

definition pie_cells :: "'n json list \<Rightarrow> string option list" where
  "pie_cells ds = map (\<lambda>k. palette k) [0..<length ds]"

definition renderChart :: "'n ChartSuggestion \<Rightarrow> nat \<Rightarrow> 'n chart" where
  "renderChart suggestion index =
     (let t = toLowerCase (type suggestion) in
      if t = ''bar'' then
        BarChart (data suggestion) (x_axis suggestion) (y_axis suggestion) (palette index)
      else if t = ''line'' then
        LineChart (data suggestion) (x_axis suggestion) (y_axis suggestion) (palette index)
      else if t = ''pie'' then
        PieChart (data suggestion) ''value'' None ''#8884d8'' (pie_cells (data suggestion))
      else if t = ''scatter'' then
        ScatterChart (data suggestion) (x_axis suggestion) (y_axis suggestion)
          (y_axis suggestion) (palette index)
      else if t = ''area'' then
        AreaChart (data suggestion) (x_axis suggestion) (y_axis suggestion)
          (palette index) (palette index)
      else NotSupported (not_supported_text (type suggestion)))"

text \<open>\<^verbatim>\<open>{suggestion.x_axis && (...)}\<close>: shown when the field is a non-empty string.\<close>

definition axis_tag :: "string option \<Rightarrow> string option" where
  "axis_tag k = (case k of None \<Rightarrow> None | Some f \<Rightarrow> if f = [] then None else Some f)"

text \<open>
  The card that \<^verbatim>\<open>ChartDisplay\<close> returns. \<open>footer_points\<close> is the number in
  \<^verbatim>\<open>Showing {suggestion.data.length} data points\<close>. \<open>suggestion_after\<close> is the
  suggestion object as the call leaves it: the component assigns to none of its fields.
  The badge that repeats the type with a capital first letter is left out: the capital
  is the Unicode one, which byte strings do not give.
\<close>

record 'n card =
  heading :: string
  x_tag :: "string option"
  y_tag :: "string option"
  rationale :: string
  body :: "'n chart"
  footer_points :: nat
  suggestion_after :: "'n ChartSuggestion"

definition ChartDisplay :: "'n ChartSuggestion \<Rightarrow> nat \<Rightarrow> 'n card" where
  "ChartDisplay suggestion index =
     \<lparr> heading = title suggestion,
       x_tag = axis_tag (x_axis suggestion),
       y_tag = axis_tag (y_axis suggestion),
       rationale = explanation suggestion,
       body = renderChart suggestion index,
       footer_points = length (data suggestion),
       suggestion_after = suggestion \<rparr>"

text \<open>The five recognised tags.\<close>

definition chart_tags :: "string list" where
  "chart_tags = [''bar'', ''line'', ''pie'', ''scatter'', ''area'']"

text \<open>Which family an element tree belongs to; \<open>None\<close> for the fallback.\<close>

fun family :: "'n chart \<Rightarrow> string option" where
  "family (BarChart d x y c) = Some ''bar''"
| "family (LineChart d x y c) = Some ''line''"
| "family (PieChart d v n f cs) = Some ''pie''"
| "family (ScatterChart d x y k c) = Some ''scatter''"
| "family (AreaChart d x y s c) = Some ''area''"
| "family (NotSupported m) = None"

text \<open>The rows handed to the charting library; the fallback hands over none.\<close>

fun plotted :: "'n chart \<Rightarrow> 'n json list" where
  "plotted (BarChart d x y c) = d"
| "plotted (LineChart d x y c) = d"
| "plotted (PieChart d v n f cs) = d"
| "plotted (ScatterChart d x y k c) = d"
| "plotted (AreaChart d x y s c) = d"
| "plotted (NotSupported m) = []"

text \<open>The colours of the single series of the four families that have one.\<close>

fun series_colours :: "'n chart \<Rightarrow> string option list" where
  "series_colours (BarChart d x y c) = [c]"
| "series_colours (LineChart d x y c) = [c]"
| "series_colours (PieChart d v n f cs) = []"
| "series_colours (ScatterChart d x y k c) = [c]"
| "series_colours (AreaChart d x y s c) = [s, c]"
| "series_colours (NotSupported m) = []"

definition indexed_tags :: "string list" where
  "indexed_tags = [''bar'', ''line'', ''scatter'', ''area'']"

section \<open>The upload controller (Home)\<close>

text \<open>
  A thrown value, as the \<^verbatim>\<open>catch\<close> clause tells them apart: an instance of
  \<^verbatim>\<open>Error\<close> with its message, or anything else.
\<close>

datatype thrown = ErrorInstance string | OtherValue

text \<open>
  A response: its status, and what \<^verbatim>\<open>await response.json()\<close> settles to, the parsed
  body or the value thrown. \<^verbatim>\<open>response.ok\<close> is true for the statuses 200 to 299.
\<close>

record 'n response =
  status :: nat
  json_result :: "thrown + 'n json"

definition ok :: "'n response \<Rightarrow> bool" where
  "ok r = (200 \<le> status r \<and> status r \<le> 299)"

text \<open>What \<^verbatim>\<open>await fetch(...)\<close> settles to.\<close>

datatype 'n fetch_outcome = Rejected thrown | Responded "'n response"

text \<open>The three \<^verbatim>\<open>useState\<close> cells of \<^verbatim>\<open>Home\<close>; \<open>JNull\<close> and \<open>None\<close> are \<^verbatim>\<open>null\<close>.\<close>

record 'n controller =
  uploadResult :: "'n json"
  loading :: bool
  error :: "string option"

definition initial :: "'n controller" where
  "initial = \<lparr> uploadResult = JNull, loading = False, error = None \<rparr>"

text \<open>The statements of \<^verbatim>\<open>handleFileUpload\<close> before its \<^verbatim>\<open>try\<close> block.\<close>

definition begin_upload :: "'n controller \<Rightarrow> 'n controller" where
  "begin_upload s = s\<lparr> loading := True, error := None, uploadResult := JNull \<rparr>"

text \<open>
  \<^verbatim>\<open>throw new Error(errorData.detail || 'Upload failed')\<close>: the message of the error
  that this line throws. It is the new error, whose message is the string conversion of
  the argument, or the \<^verbatim>\<open>TypeError\<close> of that conversion when it throws.
\<close>

definition upload_error_message :: "'n engine \<Rightarrow> 'n json option \<Rightarrow> string" where
  "upload_error_message E d =
     (case d of
        None \<Rightarrow> ''Upload failed''
      | Some v \<Rightarrow>
          if truthy E v then (case ToString E v of Inr w \<Rightarrow> w | Inl m \<Rightarrow> m)
          else ''Upload failed'')"

text \<open>
  The \<^verbatim>\<open>try\<close> block from the point where \<^verbatim>\<open>fetch\<close> settles: \<open>Inr\<close> is the value
  handed to \<^verbatim>\<open>setUploadResult\<close>, \<open>Inl\<close> the value that reaches \<^verbatim>\<open>catch\<close>.
\<close>

definition try_block :: "'n engine \<Rightarrow> 'n fetch_outcome \<Rightarrow> thrown + 'n json" where
  "try_block E out =
     (case out of
        Rejected t \<Rightarrow> Inl t
      | Responded response \<Rightarrow>
          if \<not> ok response then
            (case json_result response of
               Inl t \<Rightarrow> Inl t
             | Inr errorData \<Rightarrow>
                 (case get_prop E errorData ''detail'' of
                    Inl m \<Rightarrow> Inl (ErrorInstance m)
                  | Inr d \<Rightarrow> Inl (ErrorInstance (upload_error_message E d))))
          else
            (case json_result response of
               Inl t \<Rightarrow> Inl t
             | Inr result \<Rightarrow> Inr result))"

text \<open>\<^verbatim>\<open>err instanceof Error ? err.message : 'An error occurred'\<close>\<close>

definition catch_message :: "thrown \<Rightarrow> string" where
  "catch_message t = (case t of ErrorInstance m \<Rightarrow> m | OtherValue \<Rightarrow> ''An error occurred'')"

text \<open>
  The rest of \<^verbatim>\<open>handleFileUpload\<close> once \<^verbatim>\<open>fetch\<close> has settled: the \<^verbatim>\<open>try\<close>
  block, \<^verbatim>\<open>catch\<close> and \<^verbatim>\<open>finally\<close>. No state is written between the two awaits,
  so the part is one step on the state.
\<close>

definition finish_upload :: "'n engine \<Rightarrow> 'n fetch_outcome \<Rightarrow> 'n controller \<Rightarrow> 'n controller" where
  "finish_upload E out s =
     (case try_block E out of
        Inr result \<Rightarrow> s\<lparr> uploadResult := result \<rparr>
      | Inl t \<Rightarrow> s\<lparr> error := Some (catch_message t) \<rparr>) \<lparr> loading := False \<rparr>"

text \<open>One call that runs to its end with no other call in between.\<close>

definition handleFileUpload :: "'n engine \<Rightarrow> 'n fetch_outcome \<Rightarrow> 'n controller \<Rightarrow> 'n controller" where
  "handleFileUpload E out s = finish_upload E out (begin_upload s)"

text \<open>The states of the controller as the specification names them.\<close>

definition Failed :: "string \<Rightarrow> 'n controller" where
  "Failed m = \<lparr> uploadResult = JNull, loading = False, error = Some m \<rparr>"

definition Success :: "'n json \<Rightarrow> 'n controller" where
  "Success r = \<lparr> uploadResult = r, loading = False, error = None \<rparr>"

text \<open>
  What \<^verbatim>\<open>Home\<close> shows: \<^verbatim>\<open>{error && ...}\<close> and \<^verbatim>\<open>{uploadResult && ...}\<close>. The second
  panel holds the dataset information and one \<^verbatim>\<open>ChartDisplay\<close> per element of
  \<^verbatim>\<open>chart_suggestions\<close>; without it no chart is rendered.
\<close>

definition error_panel :: "'n controller \<Rightarrow> string option" where
  "error_panel s = (case error s of None \<Rightarrow> None | Some m \<Rightarrow> if m = [] then None else Some m)"

definition results_panel :: "'n engine \<Rightarrow> 'n controller \<Rightarrow> 'n json option" where
  "results_panel E s = (if truthy E (uploadResult s) then Some (uploadResult s) else None)"

subsection \<open>Calls that overlap\<close>

text \<open>
  \<^verbatim>\<open>handleFileUpload\<close> is asynchronous and does not test \<^verbatim>\<open>loading\<close>: a call runs to
  its \<^verbatim>\<open>await\<close> and resumes when its own \<^verbatim>\<open>fetch\<close> settles, and other calls may
  start or resume in between. Calls are numbered in the order they start; \<open>awaiting\<close>
  lists the calls that have not resumed.
\<close>

record 'n page =
  ctl :: "'n controller"
  awaiting :: "nat list"
  issued :: nat

datatype 'n event = Submit | Settle nat "'n fetch_outcome"

definition page0 :: "'n page" where
  "page0 = \<lparr> ctl = initial, awaiting = [], issued = 0 \<rparr>"

fun step :: "'n engine \<Rightarrow> 'n event \<Rightarrow> 'n page \<Rightarrow> 'n page option" where
  "step E Submit p =
     Some \<lparr> ctl = begin_upload (ctl p), awaiting = awaiting p @ [issued p],
            issued = Suc (issued p) \<rparr>"
| "step E (Settle k out) p =
     (if k \<in> set (awaiting p)
      then Some \<lparr> ctl = finish_upload E out (ctl p), awaiting = removeAll k (awaiting p),
                  issued = issued p \<rparr>
      else None)"

fun run :: "'n engine \<Rightarrow> 'n event list \<Rightarrow> 'n page \<Rightarrow> 'n page option" where
  "run E [] p = Some p"
| "run E (e # es) p = (case step E e p of None \<Rightarrow> None | Some p' \<Rightarrow> run E es p')"

text \<open>
  A sequence of events in which no call starts while another has not resumed; the number
  is the count of calls awaiting at its start.
\<close>

fun serial :: "nat \<Rightarrow> 'n event list \<Rightarrow> bool" where
  "serial k [] = True"
| "serial k (Submit # es) = (k = 0 \<and> serial 1 es)"
| "serial k (Settle i out # es) = serial (k - 1) es"

text \<open>
  At most one of the stored error and the stored result is set; and the condition that
  goes with it while calls do not overlap: a call that awaits has left both cleared.
\<close>

definition at_most_one :: "'n controller \<Rightarrow> bool" where
  "at_most_one s = (error s = None \<or> uploadResult s = JNull)"

definition serial_inv :: "'n page \<Rightarrow> bool" where
  "serial_inv p =
     (if awaiting p = [] then at_most_one (ctl p)
      else length (awaiting p) = 1 \<and> error (ctl p) = None \<and> uploadResult (ctl p) = JNull)"

section \<open>Inputs for evaluation\<close>

fun digits :: "nat \<Rightarrow> string" where
  "digits n =
     (if n < 10 then [''0123456789'' ! n]
      else digits (n div 10) @ [''0123456789'' ! (n mod 10)])"

text \<open>
  An engine for inputs whose numbers are unsigned 32-bit integers: zero is falsy, and a
  number prints in decimal, as every integer of fewer than 22 digits does. The messages are
  the ones V8 gives.
\<close>

definition u32_engine :: "32 word engine" where
  "u32_engine =
     \<lparr> num_truthy = (\<lambda>n. n \<noteq> 0),
       num_to_string = (\<lambda>n. digits (unat n)),
       null_read_message =
         ''Cannot read properties of null (reading '' @ [CHR 0x27] @ ''detail'' @ [CHR 0x27] @ '')'',
       to_primitive_message = ''Cannot convert object to primitive value'' \<rparr>"

definition sample_rows :: "32 word json list" where
  "sample_rows =
     [JObj [(''a'', JStr ''x''), (''b'', JNum 1)], JObj [(''a'', JStr ''y''), (''b'', JNum 2)]]"

definition sample :: "string \<Rightarrow> 32 word json list \<Rightarrow> 32 word ChartSuggestion" where
  "sample t ds =
     \<lparr> type = t, title = ''T'', x_axis = Some ''a'', y_axis = Some ''b'',
       explanation = ''E'', data = ds \<rparr>"

text \<open>A success body of the documented shape, and one with no \<^verbatim>\<open>chart_suggestions\<close>.\<close>

definition data_info_ab :: "32 word json" where
  "data_info_ab =
     JObj [(''columns'', JArr [JStr ''a'', JStr ''b'']), (''row_count'', JNum 2),
           (''column_count'', JNum 2), (''sample_data'', JArr sample_rows),
           (''column_types'', JObj [(''a'', JStr ''string''), (''b'', JStr ''number'')])]"

definition body_with_chart :: "string \<Rightarrow> 32 word json" where
  "body_with_chart t =
     JObj [(''status'', JStr ''ok''), (''data_info'', data_info_ab),
           (''chart_suggestions'',
              JArr [JObj [(''type'', JStr t), (''title'', JStr ''T''), (''x_axis'', JStr ''a''),
                          (''y_axis'', JStr ''b''), (''explanation'', JStr ''E''),
                          (''data'', JArr sample_rows)]])]"

definition body_without_charts :: "32 word json" where
  "body_without_charts = JObj [(''status'', JStr ''ok''), (''data_info'', data_info_ab)]"

section \<open>The renderer: dispatch, binding and colours\<close>

lemma length_COLORS: "length COLORS = 6"
  by (simp add: COLORS_def)

lemma palette_period: "palette (i + 6) = palette i"
  by (simp add: palette_def length_COLORS)

lemma palette_Some: "palette i = Some (COLORS ! (i mod 6))"
  by (simp add: palette_def color_at_def length_COLORS)

lemma sublist_not_supported: "sublist t (not_supported_text t)"
  unfolding not_supported_text_def sublist_def by (metis append.assoc)

lemma toLowerCase_simps [simp]:
  "toLowerCase [] = []"
  "toLowerCase (c # cs) = lower_char c # toLowerCase cs"
  by (simp_all add: toLowerCase_def)

lemma pie_cells_nth: "k < length ds \<Longrightarrow> pie_cells ds ! k = Some (COLORS ! (k mod 6))"
  by (simp add: pie_cells_def palette_Some)

lemma renderChart_pie:
  "toLowerCase (type s) = ''pie'' \<Longrightarrow>
     renderChart s i = PieChart (data s) ''value'' None ''#8884d8'' (pie_cells (data s))"
  by (simp add: renderChart_def)

text \<open>
  Claim C3. A suggestion whose type, lowercased, is none of the five tags renders the
  placeholder: the component is a total function, so nothing is raised; the placeholder's
  text contains the type string as it was given; the footer counts the rows. A type whose
  lowercase form is one of the five tags, whatever its casing, renders the chart of that
  family and not the placeholder.
\<close>

theorem unknown_type_falls_back:
  "(toLowerCase (type s) \<notin> set chart_tags \<longrightarrow>
      body (ChartDisplay s i) = NotSupported (not_supported_text (type s)) \<and>
      sublist (type s) (not_supported_text (type s)) \<and>
      footer_points (ChartDisplay s i) = length (data s)) \<and>
   (toLowerCase (type s) \<in> set chart_tags \<longrightarrow>
      family (body (ChartDisplay s i)) = Some (toLowerCase (type s)))"
  by (auto simp: ChartDisplay_def renderChart_def chart_tags_def sublist_not_supported)

theorem unknown_type_falls_back_witness:
  "toLowerCase (type (sample ''Histogram'' sample_rows)) \<notin> set chart_tags \<and>
   body (ChartDisplay (sample ''Histogram'' sample_rows) 7) =
     NotSupported (''Chart type '' @ [CHR 0x27] @ ''Histogram'' @ [CHR 0x27] @ '' not supported'') \<and>
   footer_points (ChartDisplay (sample ''Histogram'' sample_rows) 7) = 2 \<and>
   toLowerCase (type (sample ''sCaTTer'' sample_rows)) \<in> set chart_tags \<and>
   family (body (ChartDisplay (sample ''sCaTTer'' sample_rows) 7)) = Some ''scatter''"
  using unknown_type_falls_back [of "sample ''Histogram'' sample_rows" 7]
    unknown_type_falls_back [of "sample ''sCaTTer'' sample_rows" 7]
  by (simp add: sample_def sample_rows_def chart_tags_def not_supported_text_def
      lower_char_def upper_letters_def lower_letters_def)

text \<open>
  Claim C4. For each of the five recognised types, in any casing, the card holds the
  chart of that family over the suggestion's rows, with the axis and the series keyed by
  the declared \<open>x_axis\<close> and \<open>y_axis\<close>; the pie is keyed by the fixed field
  \<^verbatim>\<open>value\<close> and labelled from the field \<^verbatim>\<open>name\<close>. The suggestion is the same
  after the call.
\<close>

theorem recognised_type_binding:
  "(toLowerCase (type s) = ''bar'' \<longrightarrow>
      body (ChartDisplay s i) = BarChart (data s) (x_axis s) (y_axis s) (palette i)) \<and>
   (toLowerCase (type s) = ''line'' \<longrightarrow>
      body (ChartDisplay s i) = LineChart (data s) (x_axis s) (y_axis s) (palette i)) \<and>
   (toLowerCase (type s) = ''pie'' \<longrightarrow>
      family (body (ChartDisplay s i)) = Some ''pie'' \<and>
      rows (body (ChartDisplay s i)) = data s \<and>
      valueKey (body (ChartDisplay s i)) = ''value'' \<and>
      label_field (nameKey (body (ChartDisplay s i))) = ''name'') \<and>
   (toLowerCase (type s) = ''scatter'' \<longrightarrow>
      body (ChartDisplay s i) =
        ScatterChart (data s) (x_axis s) (y_axis s) (y_axis s) (palette i)) \<and>
   (toLowerCase (type s) = ''area'' \<longrightarrow>
      body (ChartDisplay s i) =
        AreaChart (data s) (x_axis s) (y_axis s) (palette i) (palette i)) \<and>
   suggestion_after (ChartDisplay s i) = s"
  by (simp add: ChartDisplay_def renderChart_def label_field_def)

theorem recognised_type_binding_witness:
  "toLowerCase (type (sample ''Bar'' sample_rows)) = ''bar'' \<and>
   body (ChartDisplay (sample ''Bar'' sample_rows) 1) =
     BarChart sample_rows (Some ''a'') (Some ''b'') (Some ''#00C49F'') \<and>
   toLowerCase (type (sample ''LINE'' sample_rows)) = ''line'' \<and>
   body (ChartDisplay (sample ''LINE'' sample_rows) 1) =
     LineChart sample_rows (Some ''a'') (Some ''b'') (Some ''#00C49F'') \<and>
   toLowerCase (type (sample ''pie'' sample_rows)) = ''pie'' \<and>
   valueKey (body (ChartDisplay (sample ''pie'' sample_rows) 1)) = ''value'' \<and>
   toLowerCase (type (sample ''sCaTTer'' sample_rows)) = ''scatter'' \<and>
   body (ChartDisplay (sample ''sCaTTer'' sample_rows) 1) =
     ScatterChart sample_rows (Some ''a'') (Some ''b'') (Some ''b'') (Some ''#00C49F'') \<and>
   toLowerCase (type (sample ''Area'' sample_rows)) = ''area'' \<and>
   body (ChartDisplay (sample ''Area'' sample_rows) 1) =
     AreaChart sample_rows (Some ''a'') (Some ''b'') (Some ''#00C49F'') (Some ''#00C49F'')"
  using recognised_type_binding [of "sample ''Bar'' sample_rows" 1]
    recognised_type_binding [of "sample ''LINE'' sample_rows" 1]
    recognised_type_binding [of "sample ''pie'' sample_rows" 1]
    recognised_type_binding [of "sample ''sCaTTer'' sample_rows" 1]
    recognised_type_binding [of "sample ''Area'' sample_rows" 1]
  by (simp add: sample_def lower_char_def upper_letters_def lower_letters_def
      palette_def color_at_def COLORS_def)

text \<open>
  Claim C6. The palette has six entries and the colour for index \<open>i\<close> is entry
  \<open>i mod 6\<close>; so for the bar, line, scatter and area families the colour of the series
  at index \<open>i + 6\<close> is the colour at index \<open>i\<close>, and the whole chart is the same.
\<close>

theorem palette_period_six:
  "length COLORS = 6 \<and>
   palette i = Some (COLORS ! (i mod 6)) \<and>
   palette (i + 6) = palette i \<and>
   (toLowerCase (type s) \<in> set indexed_tags \<longrightarrow>
      set (series_colours (renderChart s i)) = {palette i} \<and>
      renderChart s (i + 6) = renderChart s i)"
  by (auto simp: renderChart_def indexed_tags_def length_COLORS palette_Some palette_period)

theorem palette_period_six_witness:
  "toLowerCase (type (sample ''bar'' sample_rows)) \<in> set indexed_tags \<and>
   series_colours (renderChart (sample ''bar'' sample_rows) 2) = [Some ''#FFBB28''] \<and>
   series_colours (renderChart (sample ''bar'' sample_rows) 8) = [Some ''#FFBB28'']"
  using palette_period_six [of 2 "sample ''bar'' sample_rows"]
  by (simp add: sample_def indexed_tags_def renderChart_def lower_char_def upper_letters_def
      lower_letters_def palette_def color_at_def COLORS_def)

text \<open>
  Claim C7. A pie has one cell per row, and the cell of the row at position \<open>k\<close> takes
  palette entry \<open>k mod 6\<close>. The suggestion's own index plays no part: the pie is the same
  at every index, and two pies over the same rows have the same cell colours wherever
  they stand on the page.
\<close>

theorem pie_slice_colours:
  "toLowerCase (type s) = ''pie'' \<Longrightarrow>
     length (cells (renderChart s i)) = length (data s) \<and>
     (\<forall>k < length (data s). cells (renderChart s i) ! k = Some (COLORS ! (k mod 6))) \<and>
     renderChart s j = renderChart s i \<and>
     (toLowerCase (type s') = ''pie'' \<and> data s' = data s \<longrightarrow>
        cells (renderChart s' j) = cells (renderChart s i))"
  by (simp add: renderChart_pie pie_cells_nth) (simp add: pie_cells_def)

theorem pie_slice_colours_witness:
  "toLowerCase (type (sample ''Pie'' sample_rows)) = ''pie'' \<and>
   cells (renderChart (sample ''Pie'' sample_rows) 0) = [Some ''#0088FE'', Some ''#00C49F''] \<and>
   toLowerCase (type ((sample ''pie'' sample_rows)\<lparr>title := ''U''\<rparr>)) = ''pie'' \<and>
   data ((sample ''pie'' sample_rows)\<lparr>title := ''U''\<rparr>) = data (sample ''Pie'' sample_rows) \<and>
   cells (renderChart ((sample ''pie'' sample_rows)\<lparr>title := ''U''\<rparr>) 4) =
     [Some ''#0088FE'', Some ''#00C49F'']"
  using pie_slice_colours [of "sample ''Pie'' sample_rows" 0 4
      "(sample ''pie'' sample_rows)\<lparr>title := ''U''\<rparr>"]
  by (simp add: sample_def sample_rows_def renderChart_def pie_cells_def lower_char_def
      upper_letters_def lower_letters_def palette_def color_at_def COLORS_def upt_rec)

text \<open>
  Claim C8. With no rows, every variant hands no row to the charting library (the
  fallback hands over none at all), a pie has no cell, and the footer reports 0. The
  component is a total function of the suggestion, so nothing is raised.
\<close>

theorem empty_data_renders_nothing:
  "data s = [] \<Longrightarrow>
     plotted (body (ChartDisplay s i)) = [] \<and>
     (toLowerCase (type s) = ''pie'' \<longrightarrow> cells (body (ChartDisplay s i)) = []) \<and>
     footer_points (ChartDisplay s i) = 0"
  by (simp add: ChartDisplay_def renderChart_def pie_cells_def Let_def)

theorem empty_data_renders_nothing_witness:
  "data (sample ''pie'' []) = [] \<and>
   body (ChartDisplay (sample ''pie'' []) 3) = PieChart [] ''value'' None ''#8884d8'' [] \<and>
   footer_points (ChartDisplay (sample ''pie'' []) 3) = 0 \<and>
   data (sample ''radar'' []) = [] \<and>
   plotted (body (ChartDisplay (sample ''radar'' []) 3)) = [] \<and>
   footer_points (ChartDisplay (sample ''radar'' []) 3) = 0"
  using empty_data_renders_nothing [of "sample ''pie'' []" 3]
    empty_data_renders_nothing [of "sample ''radar'' []" 3]
  by (simp add: sample_def ChartDisplay_def renderChart_def pie_cells_def lower_char_def
      upper_letters_def lower_letters_def)

section \<open>The controller: one call\<close>

lemma try_block_not_ok:
  "\<not> ok r \<Longrightarrow> \<exists>t. try_block E (Responded r) = Inl t"
  by (simp add: try_block_def split: sum.splits)

lemma handleFileUpload_thrown:
  "try_block E out = Inl t \<Longrightarrow> handleFileUpload E out s = Failed (catch_message t)"
  by (simp add: handleFileUpload_def finish_upload_def begin_upload_def Failed_def)

lemma handleFileUpload_result:
  "try_block E out = Inr b \<Longrightarrow> handleFileUpload E out s = Success b"
  by (simp add: handleFileUpload_def finish_upload_def begin_upload_def Success_def)

text \<open>
  Claim C10. When \<^verbatim>\<open>fetch\<close> rejects with a value that is not an \<^verbatim>\<open>Error\<close>, or
  \<^verbatim>\<open>response.json()\<close> throws one, the call ends in \<open>Failed\<close> with the message
  \<^verbatim>\<open>An error occurred\<close>. Whatever the outcome, \<open>loading\<close> is false once the call
  has finished, also when it resumes among other calls.
\<close>

theorem non_error_throw_message:
  "handleFileUpload E (Rejected OtherValue) s = Failed ''An error occurred'' \<and>
   (json_result r = Inl OtherValue \<longrightarrow>
      handleFileUpload E (Responded r) s = Failed ''An error occurred'') \<and>
   loading (handleFileUpload E out s) = False \<and>
   loading (finish_upload E out s) = False"
  by (simp add: handleFileUpload_def finish_upload_def try_block_def begin_upload_def
      catch_message_def Failed_def split: sum.splits)

theorem non_error_throw_message_witness:
  "json_result \<lparr> status = 200, json_result = (Inl OtherValue :: thrown + 32 word json) \<rparr>
     = Inl OtherValue \<and>
   handleFileUpload u32_engine
     (Responded \<lparr> status = 200, json_result = Inl OtherValue \<rparr>)
     (Success (body_with_chart ''bar''))
     = Failed ''An error occurred''"
  using non_error_throw_message [of u32_engine "Success (body_with_chart ''bar'')"
      "\<lparr> status = 200, json_result = Inl OtherValue \<rparr>"]
  by simp

text \<open>
  Claim C2, as stated, fails: a 200 response whose body is valid JSON with no
  \<^verbatim>\<open>chart_suggestions\<close> is stored as the result, and no error is set.
\<close>

theorem missing_chart_suggestions_accepted:
  "ok \<lparr> status = 200, json_result = Inr body_without_charts \<rparr> \<and>
   get_prop u32_engine body_without_charts ''chart_suggestions'' = Inr None \<and>
   handleFileUpload u32_engine
     (Responded \<lparr> status = 200, json_result = Inr body_without_charts \<rparr>) initial
     = Success body_without_charts \<and>
   error (handleFileUpload u32_engine
     (Responded \<lparr> status = 200, json_result = Inr body_without_charts \<rparr>) initial) = None"
  by (simp add: ok_def body_without_charts_def handleFileUpload_def finish_upload_def
      try_block_def begin_upload_def initial_def Success_def)

text \<open>
  Claim C2, amended. A 2xx response whose body parses as JSON ends in \<open>Success\<close> with
  the parsed value as it is, whatever its shape; only a body whose parsing throws ends in
  \<open>Failed\<close>, with the message that \<^verbatim>\<open>catch\<close> takes from the thrown value.
\<close>

theorem ok_body_stored_unvalidated:
  "ok r \<Longrightarrow>
     (json_result r = Inr b \<longrightarrow> handleFileUpload E (Responded r) s = Success b) \<and>
     (json_result r = Inl t \<longrightarrow> handleFileUpload E (Responded r) s = Failed (catch_message t))"
  by (simp add: handleFileUpload_def finish_upload_def try_block_def begin_upload_def
      Success_def Failed_def)

theorem ok_body_stored_unvalidated_witness:
  "ok \<lparr> status = 201, json_result = Inr (JArr [] :: 32 word json) \<rparr> \<and>
   handleFileUpload u32_engine (Responded \<lparr> status = 201, json_result = Inr (JArr []) \<rparr>)
     (Failed ''old'') = Success (JArr []) \<and>
   ok \<lparr> status = 200,
        json_result = (Inl (ErrorInstance ''Unexpected end of JSON input'') :: thrown + 32 word json) \<rparr> \<and>
   handleFileUpload u32_engine
     (Responded \<lparr> status = 200,
        json_result = Inl (ErrorInstance ''Unexpected end of JSON input'') \<rparr>)
     initial = Failed ''Unexpected end of JSON input''"
  using ok_body_stored_unvalidated [of
      "\<lparr> status = 201, json_result = Inr (JArr [] :: 32 word json) \<rparr>" "JArr []"
      u32_engine "Failed ''old''"]
    ok_body_stored_unvalidated [of
      "\<lparr> status = 200,
         json_result = (Inl (ErrorInstance ''Unexpected end of JSON input'') :: thrown + 32 word json) \<rparr>"
      _ u32_engine initial "ErrorInstance ''Unexpected end of JSON input''"]
  by (simp add: ok_def catch_message_def)

text \<open>
  Claim C5, as stated, fails at three non-2xx responses. A body whose \<^verbatim>\<open>detail\<close> is
  the empty string gives \<^verbatim>\<open>Upload failed\<close>, not the detail. A body that is not JSON
  gives the parser's own message. A body whose \<^verbatim>\<open>detail\<close> is a list of objects gives
  \<^verbatim>\<open>[object Object]\<close>.
\<close>

theorem non_ok_message_examples:
  "\<not> ok \<lparr> status = 400, json_result = Inr (JObj [(''detail'', JStr [])]) \<rparr> \<and>
   handleFileUpload u32_engine
     (Responded \<lparr> status = 400, json_result = Inr (JObj [(''detail'', JStr [])]) \<rparr>) initial
     = Failed ''Upload failed'' \<and>
   \<not> ok \<lparr> status = 503,
     json_result =
       (Inl (ErrorInstance ''Unexpected token < in JSON at position 0'') :: thrown + 32 word json) \<rparr> \<and>
   handleFileUpload u32_engine
     (Responded \<lparr> status = 503,
        json_result = Inl (ErrorInstance ''Unexpected token < in JSON at position 0'') \<rparr>) initial
     = Failed ''Unexpected token < in JSON at position 0'' \<and>
   \<not> ok \<lparr> status = 422,
     json_result = Inr (JObj [(''detail'', JArr [JObj [(''msg'', JStr ''field required'')]])]) \<rparr> \<and>
   handleFileUpload u32_engine
     (Responded \<lparr> status = 422,
        json_result = Inr (JObj [(''detail'', JArr [JObj [(''msg'', JStr ''field required'')]])]) \<rparr>)
     initial
     = Failed ''[object Object]''"
  by (simp add: ok_def handleFileUpload_def finish_upload_def try_block_def begin_upload_def
      initial_def Failed_def catch_message_def upload_error_message_def u32_engine_def)

text \<open>
  Claim C5, amended. Take a submission that runs with no other submission in flight.
  Every non-2xx response ends it in \<open>Failed\<close>, and the results panel, with it every
  chart, is absent. When the body is a JSON object whose \<^verbatim>\<open>detail\<close> is a non-empty
  string, the message is that string. Any other truthy \<^verbatim>\<open>detail\<close> is shown in its
  string conversion, or, when the conversion throws, with the message of the
  \<^verbatim>\<open>TypeError\<close> thrown. When the body is JSON, not \<^verbatim>\<open>null\<close>, and its
  \<^verbatim>\<open>detail\<close> is absent or falsy, the message is \<^verbatim>\<open>Upload failed\<close>. When the body
  is \<^verbatim>\<open>null\<close>, the message is that of the \<^verbatim>\<open>TypeError\<close> of reading its
  \<^verbatim>\<open>detail\<close>. When parsing the body throws, the message is the one \<^verbatim>\<open>catch\<close>
  takes from the thrown value.
\<close>

theorem non_ok_response_fails:
  assumes "\<not> ok r"
  shows
    "(json_result r = Inr (JObj kvs) \<and> map_of kvs ''detail'' = Some (JStr d) \<and> d \<noteq> [] \<longrightarrow>
        handleFileUpload E (Responded r) s = Failed d) \<and>
     (json_result r = Inr (JObj kvs) \<and> map_of kvs ''detail'' = Some v \<and> truthy E v \<and>
      ToString E v = Inr w \<longrightarrow>
        handleFileUpload E (Responded r) s = Failed w) \<and>
     (json_result r = Inr (JObj kvs) \<and> map_of kvs ''detail'' = Some v \<and> truthy E v \<and>
      ToString E v = Inl e \<longrightarrow>
        handleFileUpload E (Responded r) s = Failed e) \<and>
     (json_result r = Inr (JObj kvs) \<and> map_of kvs ''detail'' = Some v \<and> \<not> truthy E v \<longrightarrow>
        handleFileUpload E (Responded r) s = Failed ''Upload failed'') \<and>
     (json_result r = Inr b \<and> get_prop E b ''detail'' = Inr None \<longrightarrow>
        handleFileUpload E (Responded r) s = Failed ''Upload failed'') \<and>
     (json_result r = Inr JNull \<longrightarrow>
        handleFileUpload E (Responded r) s = Failed (null_read_message E)) \<and>
     (json_result r = Inl t \<longrightarrow>
        handleFileUpload E (Responded r) s = Failed (catch_message t)) \<and>
     (\<exists>m. handleFileUpload E (Responded r) s = Failed m) \<and>
     results_panel E (handleFileUpload E (Responded r) s) = None \<and>
     (awaiting p = [] \<longrightarrow>
        run E [Submit, Settle (issued p) (Responded r)] p =
          Some \<lparr> ctl = handleFileUpload E (Responded r) (ctl p), awaiting = [],
                 issued = Suc (issued p) \<rparr>)"
proof -
  from assms obtain t' where t': "try_block E (Responded r) = Inl t'"
    using try_block_not_ok by blast
  have failed: "handleFileUpload E (Responded r) s = Failed (catch_message t')"
    using t' by (rule handleFileUpload_thrown)
  have panel: "results_panel E (handleFileUpload E (Responded r) s) = None"
    by (simp add: failed results_panel_def Failed_def)
  have parsed: "json_result r = Inr b' \<Longrightarrow> get_prop E b' ''detail'' = Inr x \<Longrightarrow>
      handleFileUpload E (Responded r) s = Failed (upload_error_message E x)" for b' x
    using assms
    by (simp add: handleFileUpload_def finish_upload_def begin_upload_def Failed_def
        try_block_def catch_message_def)
  have null: "json_result r = Inr JNull \<Longrightarrow>
      handleFileUpload E (Responded r) s = Failed (null_read_message E)"
    using assms
    by (simp add: handleFileUpload_def finish_upload_def begin_upload_def Failed_def
        try_block_def catch_message_def)
  have thrown: "json_result r = Inl u \<Longrightarrow>
      handleFileUpload E (Responded r) s = Failed (catch_message u)" for u
    using assms
    by (simp add: handleFileUpload_def finish_upload_def begin_upload_def Failed_def
        try_block_def)
  have alone: "awaiting p = [] \<Longrightarrow>
      run E [Submit, Settle (issued p) (Responded r)] p =
        Some \<lparr> ctl = handleFileUpload E (Responded r) (ctl p), awaiting = [],
               issued = Suc (issued p) \<rparr>"
    by (simp add: handleFileUpload_def)
  show ?thesis
    using failed panel thrown null alone parsed [of "JObj kvs"] parsed [of b None]
    by (auto simp: upload_error_message_def)
qed

theorem non_ok_response_fails_witness:
  "\<not> ok \<lparr> status = 400,
       json_result = Inr (JObj [(''detail'', JStr ''unsupported file type'')] :: 32 word json) \<rparr> \<and>
   handleFileUpload u32_engine
     (Responded \<lparr> status = 400,
        json_result = Inr (JObj [(''detail'', JStr ''unsupported file type'')]) \<rparr>)
     (Success (body_with_chart ''bar''))
     = Failed ''unsupported file type'' \<and>
   results_panel u32_engine (handleFileUpload u32_engine
     (Responded \<lparr> status = 400,
        json_result = Inr (JObj [(''detail'', JStr ''unsupported file type'')]) \<rparr>)
     (Success (body_with_chart ''bar''))) = None \<and>
   awaiting (page0 :: 32 word page) = [] \<and>
   run u32_engine
     [Submit,
      Settle 0 (Responded \<lparr> status = 400,
        json_result = Inr (JObj [(''detail'', JStr ''unsupported file type'')]) \<rparr>)] page0
     = Some \<lparr> ctl = Failed ''unsupported file type'', awaiting = [], issued = 1 \<rparr> \<and>
   \<not> ok \<lparr> status = 422,
       json_result = Inr (JObj [(''detail'', JArr [JNum 4, JNull, JStr ''x''])] :: 32 word json) \<rparr> \<and>
   truthy u32_engine (JArr [JNum 4, JNull, JStr ''x'']) \<and>
   ToString u32_engine (JArr [JNum 4, JNull, JStr ''x'']) = Inr ''4,,x'' \<and>
   handleFileUpload u32_engine
     (Responded \<lparr> status = 422,
        json_result = Inr (JObj [(''detail'', JArr [JNum 4, JNull, JStr ''x''])]) \<rparr>) initial
     = Failed ''4,,x'' \<and>
   \<not> ok \<lparr> status = 418,
       json_result = Inr (JObj [(''detail'', JObj [(''toString'', JNum 1)])] :: 32 word json) \<rparr> \<and>
   truthy u32_engine (JObj [(''toString'', JNum 1)]) \<and>
   ToString u32_engine (JObj [(''toString'', JNum 1)])
     = Inl ''Cannot convert object to primitive value'' \<and>
   handleFileUpload u32_engine
     (Responded \<lparr> status = 418,
        json_result = Inr (JObj [(''detail'', JObj [(''toString'', JNum 1)])]) \<rparr>) initial
     = Failed ''Cannot convert object to primitive value'' \<and>
   \<not> ok \<lparr> status = 500, json_result = Inr (JObj [(''detail'', JNum 0)] :: 32 word json) \<rparr> \<and>
   \<not> truthy u32_engine (JNum 0) \<and>
   handleFileUpload u32_engine
     (Responded \<lparr> status = 500, json_result = Inr (JObj [(''detail'', JNum 0)]) \<rparr>) initial
     = Failed ''Upload failed'' \<and>
   \<not> ok \<lparr> status = 404,
       json_result = Inr (JObj [(''error'', JStr ''Not Found'')] :: 32 word json) \<rparr> \<and>
   get_prop u32_engine (JObj [(''error'', JStr ''Not Found'')]) ''detail'' = Inr None \<and>
   handleFileUpload u32_engine
     (Responded \<lparr> status = 404, json_result = Inr (JObj [(''error'', JStr ''Not Found'')]) \<rparr>)
     initial
     = Failed ''Upload failed'' \<and>
   \<not> ok \<lparr> status = 500, json_result = Inr (JNull :: 32 word json) \<rparr> \<and>
   handleFileUpload u32_engine
     (Responded \<lparr> status = 500, json_result = Inr JNull \<rparr>) initial
     = Failed (null_read_message u32_engine) \<and>
   \<not> ok \<lparr> status = 502, json_result = (Inl OtherValue :: thrown + 32 word json) \<rparr> \<and>
   handleFileUpload u32_engine
     (Responded \<lparr> status = 502, json_result = Inl OtherValue \<rparr>) initial
     = Failed ''An error occurred''"
proof -
  let ?r400 = "\<lparr> status = 400, json_result = Inr (JObj [(''detail'', JStr ''unsupported file type'')] :: 32 word json) \<rparr>"
  let ?r422 = "\<lparr> status = 422, json_result = Inr (JObj [(''detail'', JArr [JNum 4, JNull, JStr ''x''])] :: 32 word json) \<rparr>"
  let ?r418 = "\<lparr> status = 418, json_result = Inr (JObj [(''detail'', JObj [(''toString'', JNum 1)])] :: 32 word json) \<rparr>"
  let ?r500 = "\<lparr> status = 500, json_result = Inr (JObj [(''detail'', JNum 0)] :: 32 word json) \<rparr>"
  let ?r404 = "\<lparr> status = 404, json_result = Inr (JObj [(''error'', JStr ''Not Found'')] :: 32 word json) \<rparr>"
  let ?r500n = "\<lparr> status = 500, json_result = Inr (JNull :: 32 word json) \<rparr>"
  let ?r502 = "\<lparr> status = 502, json_result = (Inl OtherValue :: thrown + 32 word json) \<rparr>"
  have zero: "\<not> truthy u32_engine (JNum 0)"
    by (simp add: u32_engine_def)
  have list: "ToString u32_engine (JArr [JNum 4, JNull, JStr ''x'']) = Inr ''4,,x''"
    by (simp add: u32_engine_def)
  have hidden: "ToString u32_engine (JObj [(''toString'', JNum 1)])
      = Inl ''Cannot convert object to primitive value''"
    by (simp add: u32_engine_def)
  have t1: "truthy u32_engine (JArr [JNum 4, JNull, JStr ''x''])"
    and t2: "truthy u32_engine (JObj [(''toString'', JNum 1)])"
    and t3: "awaiting (page0 :: 32 word page) = []"
    by (simp_all add: page0_def)
  have s400: "\<not> ok ?r400" and s422: "\<not> ok ?r422" and s418: "\<not> ok ?r418"
    and s500: "\<not> ok ?r500" and s404: "\<not> ok ?r404" and s500n: "\<not> ok ?r500n"
    and s502: "\<not> ok ?r502"
    by (simp_all add: ok_def)
  have h400: "json_result ?r400 = Inr (JObj [(''detail'', JStr ''unsupported file type'')]) \<and>
      map_of [(''detail'', JStr ''unsupported file type'' :: 32 word json)] ''detail''
        = Some (JStr ''unsupported file type'') \<and> ''unsupported file type'' \<noteq> []"
    by simp
  have a1: "handleFileUpload u32_engine (Responded ?r400)
        (Success (body_with_chart ''bar'')) = Failed ''unsupported file type''"
    and a2: "results_panel u32_engine (handleFileUpload u32_engine (Responded ?r400)
        (Success (body_with_chart ''bar''))) = None"
    using h400 non_ok_response_fails [where r = "?r400" and E = u32_engine
        and kvs = "[(''detail'', JStr ''unsupported file type'')]" and d = "''unsupported file type''" and v = JNull and w = "[]" and e = "[]" and b = JNull and t = OtherValue and p = page0 and s = "Success (body_with_chart ''bar'')", OF s400]
    by blast+
  have a1': "handleFileUpload u32_engine (Responded ?r400) initial
        = Failed ''unsupported file type''"
    and a3': "run u32_engine [Submit, Settle (issued (page0 :: 32 word page)) (Responded ?r400)]
        page0
        = Some \<lparr> ctl = handleFileUpload u32_engine (Responded ?r400) (ctl page0),
                 awaiting = [], issued = Suc (issued (page0 :: 32 word page)) \<rparr>"
    using h400 t3 non_ok_response_fails [where r = "?r400" and E = u32_engine
        and kvs = "[(''detail'', JStr ''unsupported file type'')]" and d = "''unsupported file type''" and v = JNull and w = "[]" and e = "[]" and b = JNull and t = OtherValue and p = page0 and s = initial, OF s400]
    by blast+
  have p0: "issued (page0 :: 32 word page) = 0" "ctl (page0 :: 32 word page) = initial"
    by (simp_all add: page0_def)
  have a3: "run u32_engine [Submit, Settle 0 (Responded ?r400)] page0
        = Some \<lparr> ctl = Failed ''unsupported file type'', awaiting = [], issued = 1 \<rparr>"
    using a3' unfolding p0 a1' by simp
  have h422: "json_result ?r422 = Inr (JObj [(''detail'', JArr [JNum 4, JNull, JStr ''x''])]) \<and>
      map_of [(''detail'', JArr [JNum 4, JNull, JStr ''x''] :: 32 word json)] ''detail''
        = Some (JArr [JNum 4, JNull, JStr ''x''])"
    by simp
  have b1: "handleFileUpload u32_engine (Responded ?r422) initial = Failed ''4,,x''"
    using h422 t1 list non_ok_response_fails [where r = "?r422" and E = u32_engine
        and kvs = "[(''detail'', JArr [JNum 4, JNull, JStr ''x''])]" and d = "[]" and v = "JArr [JNum 4, JNull, JStr ''x'']" and w = "''4,,x''" and e = "[]" and b = JNull and t = OtherValue and p = page0 and s = initial, OF s422]
    by blast
  have h418: "json_result ?r418 = Inr (JObj [(''detail'', JObj [(''toString'', JNum 1)])]) \<and>
      map_of [(''detail'', JObj [(''toString'', JNum 1)] :: 32 word json)] ''detail''
        = Some (JObj [(''toString'', JNum 1)])"
    by simp
  have c1: "handleFileUpload u32_engine (Responded ?r418) initial
        = Failed ''Cannot convert object to primitive value''"
    using h418 t2 hidden non_ok_response_fails [where r = "?r418" and E = u32_engine
        and kvs = "[(''detail'', JObj [(''toString'', JNum 1)])]" and d = "[]" and v = "JObj [(''toString'', JNum 1)]" and w = "[]" and e = "''Cannot convert object to primitive value''" and b = JNull and t = OtherValue and p = page0 and s = initial, OF s418]
    by blast
  have h500: "json_result ?r500 = Inr (JObj [(''detail'', JNum 0)]) \<and>
      map_of [(''detail'', JNum 0 :: 32 word json)] ''detail'' = Some (JNum 0)"
    by simp
  have d1: "handleFileUpload u32_engine (Responded ?r500) initial = Failed ''Upload failed''"
    using h500 zero non_ok_response_fails [where r = "?r500" and E = u32_engine
        and kvs = "[(''detail'', JNum 0)]" and d = "[]" and v = "JNum 0" and w = "[]" and e = "[]" and b = JNull and t = OtherValue and p = page0 and s = initial, OF s500]
    by blast
  have e0: "get_prop u32_engine (JObj [(''error'', JStr ''Not Found'')]) ''detail'' = Inr None"
    by simp
  have h404: "json_result ?r404 = Inr (JObj [(''error'', JStr ''Not Found'')])"
    by simp
  have e1: "handleFileUpload u32_engine (Responded ?r404) initial = Failed ''Upload failed''"
    using h404 e0 non_ok_response_fails [where r = "?r404" and E = u32_engine
        and kvs = "[]" and d = "[]" and v = JNull and w = "[]" and e = "[]" and b = "JObj [(''error'', JStr ''Not Found'')]" and t = OtherValue and p = page0 and s = initial, OF s404]
    by blast
  have h500n: "json_result ?r500n = Inr JNull"
    by simp
  have f1: "handleFileUpload u32_engine (Responded ?r500n) initial
        = Failed (null_read_message u32_engine)"
    using h500n non_ok_response_fails [where r = "?r500n" and E = u32_engine
        and kvs = "[]" and d = "[]" and v = JNull and w = "[]" and e = "[]" and b = JNull and t = OtherValue and p = page0 and s = initial, OF s500n]
    by blast
  have h502: "json_result ?r502 = Inl OtherValue"
    by simp
  have "handleFileUpload u32_engine (Responded ?r502) initial
        = Failed (catch_message OtherValue)"
    using h502 non_ok_response_fails [where r = "?r502" and E = u32_engine
        and kvs = "[]" and d = "[]" and v = JNull and w = "[]" and e = "[]" and b = JNull and t = OtherValue and p = page0 and s = initial, OF s502]
    by blast
  then have g1: "handleFileUpload u32_engine (Responded ?r502) initial
        = Failed ''An error occurred''"
    by (simp add: catch_message_def)
  show ?thesis
    by (intro conjI; fact)
qed

section \<open>The controller: calls that overlap\<close>

lemma at_most_one_finish:
  "error s = None \<Longrightarrow> uploadResult s = JNull \<Longrightarrow> at_most_one (finish_upload E out s)"
  by (simp add: finish_upload_def at_most_one_def split: sum.splits)

lemma serial_inv_step:
  assumes "serial_inv p" and "step E e p = Some p'" and "serial (length (awaiting p)) (e # es)"
  shows "serial_inv p' \<and> serial (length (awaiting p')) es"
proof (cases e)
  case Submit
  with assms show ?thesis
    by (auto simp: serial_inv_def begin_upload_def)
next
  case (Settle k out)
  with assms(2) have k: "k \<in> set (awaiting p)"
    and p': "p' = \<lparr> ctl = finish_upload E out (ctl p), awaiting = removeAll k (awaiting p),
                     issued = issued p \<rparr>"
    by (auto split: if_splits)
  from k have ne: "awaiting p \<noteq> []" by auto
  with assms(1) have one: "length (awaiting p) = 1"
    and clean: "error (ctl p) = None" "uploadResult (ctl p) = JNull"
    by (simp_all add: serial_inv_def)
  from one k have "awaiting p = [k]"
    by (cases "awaiting p") auto
  then have gone: "awaiting p' = []"
    by (simp add: p')
  have "at_most_one (ctl p')"
    using clean by (simp add: p' at_most_one_finish)
  with gone assms(3) Settle one show ?thesis
    by (simp add: serial_inv_def)
qed

lemma serial_inv_run:
  "serial_inv p \<Longrightarrow> serial (length (awaiting p)) es \<Longrightarrow> run E es p = Some p' \<Longrightarrow>
     serial_inv p'"
proof (induction es arbitrary: p)
  case Nil
  then show ?case by simp
next
  case (Cons e es)
  from Cons.prems(3) obtain q where q: "step E e p = Some q" and r: "run E es q = Some p'"
    by (auto split: option.splits)
  from serial_inv_step [OF Cons.prems(1) q Cons.prems(2)]
  have "serial_inv q" and "serial (length (awaiting q)) es" by simp_all
  then show ?case using r by (rule Cons.IH)
qed

lemma serial_inv_at_most_one: "serial_inv p \<Longrightarrow> at_most_one (ctl p)"
  by (auto simp: serial_inv_def at_most_one_def split: if_splits)

lemma serial_inv_page0: "serial_inv page0"
  by (simp add: serial_inv_def page0_def initial_def at_most_one_def)




text \<open>
  Claim C9, as stated, fails when calls overlap: two calls start, the first is rejected
  and the second then succeeds; the error of the first and the result of the second are
  both stored.
\<close>

theorem overlap_sets_both:
  "run u32_engine
     [Submit, Submit, Settle 0 (Rejected (ErrorInstance ''Failed to fetch'')),
      Settle 1 (Responded \<lparr> status = 200, json_result = Inr (body_with_chart ''bar'') \<rparr>)]
     page0
   = Some \<lparr> ctl = \<lparr> uploadResult = body_with_chart ''bar'', loading = False,
                     error = Some ''Failed to fetch'' \<rparr>,
            awaiting = [], issued = 2 \<rparr> \<and>
   body_with_chart ''bar'' \<noteq> JNull \<and>
   \<not> at_most_one \<lparr> uploadResult = body_with_chart ''bar'', loading = False,
                     error = Some ''Failed to fetch'' \<rparr>"
  by (simp add: page0_def initial_def begin_upload_def finish_upload_def try_block_def ok_def
      catch_message_def at_most_one_def body_with_chart_def)

text \<open>
  Claim C9, amended. In every state reached from the initial one by a sequence of
  submissions and resolutions in which no submission starts before the one before it has
  resolved, the stored error or the stored result is null. Starting a submission sets
  both to null; the success path writes the result and \<open>loading\<close> only; the failure path
  writes the error and \<open>loading\<close> only.
\<close>

theorem serial_at_most_one:
  "(serial 0 es \<and> run E es page0 = Some p \<longrightarrow>
      error (ctl p) = None \<or> uploadResult (ctl p) = JNull) \<and>
   error (begin_upload s) = None \<and> uploadResult (begin_upload s) = JNull \<and>
   (try_block E out = Inr b \<longrightarrow>
      finish_upload E out s = s\<lparr> uploadResult := b, loading := False \<rparr>) \<and>
   (try_block E out = Inl t \<longrightarrow>
      finish_upload E out s = s\<lparr> error := Some (catch_message t), loading := False \<rparr>)"
proof -
  have "error (ctl p) = None \<or> uploadResult (ctl p) = JNull"
    if "serial 0 es" and "run E es page0 = Some p"
  proof -
    have "serial (length (awaiting (page0 :: 'a page))) es"
      using that(1) by (simp add: page0_def)
    with serial_inv_page0 have "serial_inv p"
      using that(2) by (rule serial_inv_run)
    then show ?thesis
      using serial_inv_at_most_one by (auto simp: at_most_one_def)
  qed
  then show ?thesis
    by (simp add: begin_upload_def finish_upload_def)
qed

theorem serial_at_most_one_witness:
  "serial 0
     [Submit, Settle 0 (Rejected (ErrorInstance ''Failed to fetch'')), Submit,
      Settle 1 (Responded \<lparr> status = 200, json_result = Inr (body_with_chart ''bar'') \<rparr>)] \<and>
   run u32_engine
     [Submit, Settle 0 (Rejected (ErrorInstance ''Failed to fetch'')), Submit,
      Settle 1 (Responded \<lparr> status = 200, json_result = Inr (body_with_chart ''bar'') \<rparr>)]
     page0
   = Some \<lparr> ctl = Success (body_with_chart ''bar''), awaiting = [], issued = 2 \<rparr> \<and>
   error (ctl \<lparr> ctl = Success (body_with_chart ''bar''), awaiting = [], issued = 2 \<rparr>) = None \<and>
   try_block u32_engine
     (Responded \<lparr> status = 200, json_result = Inr (body_with_chart ''bar'') \<rparr>)
     = Inr (body_with_chart ''bar'') \<and>
   finish_upload u32_engine
     (Responded \<lparr> status = 200, json_result = Inr (body_with_chart ''bar'') \<rparr>) (Failed ''old'')
     = \<lparr> uploadResult = body_with_chart ''bar'', loading = False, error = Some ''old'' \<rparr> \<and>
   try_block u32_engine (Rejected (ErrorInstance ''Failed to fetch'') :: 32 word fetch_outcome)
     = Inl (ErrorInstance ''Failed to fetch'') \<and>
   finish_upload u32_engine (Rejected (ErrorInstance ''Failed to fetch''))
     (Success (body_with_chart ''bar''))
     = \<lparr> uploadResult = body_with_chart ''bar'', loading = False,
         error = Some ''Failed to fetch'' \<rparr>"
  using serial_at_most_one [where
      es = "[Submit, Settle 0 (Rejected (ErrorInstance ''Failed to fetch'')), Submit,
        Settle 1 (Responded \<lparr> status = 200, json_result = Inr (body_with_chart ''bar'') \<rparr>)]"
      and E = u32_engine
      and p = "\<lparr> ctl = Success (body_with_chart ''bar''), awaiting = [], issued = 2 \<rparr>"
      and out = "Responded \<lparr> status = 200, json_result = Inr (body_with_chart ''bar'') \<rparr>"
      and b = "body_with_chart ''bar''" and s = "Failed ''old''"]
    serial_at_most_one [where E = u32_engine
      and out = "Rejected (ErrorInstance ''Failed to fetch'') :: 32 word fetch_outcome"
      and t = "ErrorInstance ''Failed to fetch''" and s = "Success (body_with_chart ''bar'')"]
  by (simp add: page0_def initial_def begin_upload_def finish_upload_def try_block_def ok_def
      catch_message_def Success_def Failed_def body_with_chart_def)

end
